theory Spec2Isabelle
  imports Main
begin

section \<open>Errors and awaited calls\<close>

text \<open>
  Every \<^verbatim>\<open>throw new Error(message)\<close> of the source is a value \<open>Error message\<close>; a rejected
  promise and a thrown exception are both the left injection of the result. \<open>TypeError\<close> is
  what reading a property of \<^verbatim>\<open>null\<close> or \<^verbatim>\<open>undefined\<close> throws.
\<close>

datatype error = Error string | TypeError

text \<open>
  An awaited call on an external collaborator (a storage collection, a repository): it
  reads and changes the state \<open>'w\<close> of the world outside the process and either rejects
  with an error or resolves with a value.
\<close>

type_synonym ('w, 'a) io = "'w \<Rightarrow> (error + 'a) \<times> 'w"

section \<open>The cooldown repository (MongoCooldownRepository)\<close>

subsection \<open>Data\<close>

text \<open>
  \<^verbatim>\<open>{ commandId: string; guildId: string; userId?: string }\<close>: an absent \<^verbatim>\<open>userId\<close>
  (\<^verbatim>\<open>undefined\<close>) is \<open>None\<close>.
\<close>

record WhereOneInput =
  commandId :: string
  guildId :: string
  userId :: "string option"

text \<open>
  The cooldown entity carries the fields of a query plus its scope (\<^verbatim>\<open>type\<close>) and its
  counter. The scope is kept as the string the code compares it with; the counter is only
  copied into the stored document, no arithmetic is done on it.
\<close>

record CooldownEntity = WhereOneInput +
  type :: string
  secondsRemaining :: int

text \<open>
  The objects handed to the collection: the filter \<^verbatim>\<open>{ _id, name, type? }\<close>, the document
  \<^verbatim>\<open>{ _id, name, type, cooldown }\<close> and the options \<^verbatim>\<open>{ upsert }\<close>.
\<close>

record Filter =
  q_id :: string
  q_name :: string
  q_type :: "string option"

record CooldownDocument =
  doc_id :: string
  doc_name :: string
  doc_type :: string
  doc_cooldown :: int

record QueryOptions =
  upsert :: bool

text \<open>
  \<^verbatim>\<open>cooldownSchema\<close>, the collection imported from \<^verbatim>\<open>./models/cooldown\<close>, is taken as a
  parameter: the two operations the repository calls on it. \<^verbatim>\<open>deleteOne\<close> resolves with
  the number of documents deleted, \<^verbatim>\<open>findOneAndUpdate\<close> with the document it found, if any;
  the repository discards both.
\<close>

record 'w Model =
  deleteOne :: "Filter \<Rightarrow> ('w, nat) io"
  findOneAndUpdate ::
    "Filter \<Rightarrow> CooldownDocument \<Rightarrow> QueryOptions \<Rightarrow> ('w, CooldownDocument option) io"

subsection \<open>Template literals and truthiness\<close>

text \<open>\<^verbatim>\<open>`${x}`\<close> of an optional string: \<^verbatim>\<open>undefined\<close> is rendered as the text "undefined".\<close>

definition template :: "string option \<Rightarrow> string" where
  "template x = (case x of None \<Rightarrow> ''undefined'' | Some s \<Rightarrow> s)"

text \<open>\<^verbatim>\<open>x ? ... : ...\<close> on an optional string: \<^verbatim>\<open>undefined\<close> and the empty string are falsy.\<close>

definition truthy :: "string option \<Rightarrow> bool" where
  "truthy x = (case x of None \<Rightarrow> False | Some s \<Rightarrow> s \<noteq> [])"

subsection \<open>Identity derivation\<close>

text \<open>
  \<^verbatim>\<open>getIdFromEntity\<close> is declared on \<^verbatim>\<open>Partial<CooldownEntity>\<close>; its one caller, \<^verbatim>\<open>save\<close>,
  passes a \<^verbatim>\<open>CooldownEntity\<close>, of which only \<^verbatim>\<open>userId\<close> may be absent.
\<close>

definition getIdFromWhereOneInput :: "'a WhereOneInput_scheme \<Rightarrow> string" where
  "getIdFromWhereOneInput input =
     (let userIdSuffix = (if truthy (userId input) then ''-'' @ template (userId input) else [])
      in commandId input @ ''-'' @ guildId input @ userIdSuffix)"

definition getIdFromEntity :: "'a CooldownEntity_scheme \<Rightarrow> error + string" where
  "getIdFromEntity cooldown =
     (if type cooldown = ''global'' then
        Inr (commandId cooldown @ ''-'' @ guildId cooldown)
      else if type cooldown = ''per-user'' then
        Inr (commandId cooldown @ ''-'' @ guildId cooldown @ ''-'' @ template (userId cooldown))
      else Inl (Error ''WOK Commands > unrecognized Cooldown type''))"

subsection \<open>Operations\<close>

definition MongoCooldownRepository_findOne ::
    "'a WhereOneInput_scheme \<Rightarrow> ('w, CooldownEntity) io" where
  "MongoCooldownRepository_findOne input w = (Inl (Error ''Method not implemented.''), w)"

definition MongoCooldownRepository_delete ::
    "'w Model \<Rightarrow> 'a WhereOneInput_scheme \<Rightarrow> ('w, unit) io" where
  "MongoCooldownRepository_delete cooldownSchema input w =
     (let x_id = getIdFromWhereOneInput input in
      case deleteOne cooldownSchema
             \<lparr>q_id = x_id, q_name = commandId input, q_type = None\<rparr> w of
        (Inl e, w') \<Rightarrow> (Inl e, w')
      | (Inr _, w') \<Rightarrow> (Inr (), w'))"

definition MongoCooldownRepository_save ::
    "'w Model \<Rightarrow> CooldownEntity \<Rightarrow> ('w, CooldownEntity) io" where
  "MongoCooldownRepository_save cooldownSchema cooldown w =
     (case getIdFromEntity cooldown of
        Inl e \<Rightarrow> (Inl e, w)
      | Inr x_id \<Rightarrow>
          (case findOneAndUpdate cooldownSchema
                  \<lparr>q_id = x_id, q_name = commandId cooldown, q_type = Some (type cooldown)\<rparr>
                  \<lparr>doc_id = x_id, doc_name = commandId cooldown, doc_type = type cooldown,
                   doc_cooldown = secondsRemaining cooldown\<rparr>
                  \<lparr>upsert = True\<rparr> w of
             (Inl e, w') \<Rightarrow> (Inl e, w')
           | (Inr _, w') \<Rightarrow> (Inr cooldown, w')))"

subsection \<open>Two collections\<close>

text \<open>
  A collection that does nothing but record the calls it receives: its state is the list
  of calls issued so far. A statement proved for every collection holds for this one, so
  "the state is returned unchanged" means that no call was issued.
\<close>

datatype call =
    DeleteOne Filter
  | FindOneAndUpdate Filter CooldownDocument QueryOptions

definition recordingModel :: "call list Model" where
  "recordingModel =
     \<lparr>deleteOne = (\<lambda>f w. (Inr 0, w @ [DeleteOne f])),
      findOneAndUpdate = (\<lambda>f u opts w. (Inr None, w @ [FindOneAndUpdate f u opts]))\<rparr>"

text \<open>
  Modelled from the spec: the stored cooldown collection behind \<^verbatim>\<open>cooldownSchema\<close>
  (\<^verbatim>\<open>./models/cooldown\<close> is not among the sources). Documents are keyed by their \<^verbatim>\<open>_id\<close>,
  one document per identity; deleting removes the one document that matches the filter
  and "on a non-existent key is a no-op, not an error".
\<close>

type_synonym store = "string \<rightharpoonup> CooldownDocument"

definition matches :: "Filter \<Rightarrow> CooldownDocument \<Rightarrow> bool" where
  "matches f d =
     (doc_name d = q_name f \<and> (case q_type f of None \<Rightarrow> True | Some t \<Rightarrow> doc_type d = t))"

text \<open>The \<^verbatim>\<open>_id\<close> of the filter selects the key; the other fields are compared.\<close>

definition store_deleteOne :: "Filter \<Rightarrow> (store, nat) io" where
  "store_deleteOne f st =
     (case st (q_id f) of
        None \<Rightarrow> (Inr 0, st)
      | Some d \<Rightarrow> if matches f d then (Inr 1, st(q_id f := None)) else (Inr 0, st))"

section \<open>The orchestrator (WOKCommands)\<close>

subsection \<open>Guild settings\<close>

text \<open>
  Modelled from the spec: the guild settings aggregate and its prefix value object
  (\<^verbatim>\<open>./domain/GuildSettingsAggregate\<close> and \<^verbatim>\<open>./domain/GuildPrefix\<close> are not among the
  sources). The aggregate has a \<^verbatim>\<open>guildId\<close>, a prefix wrapping a string and the category
  registrations, a mapping from category name to emoji.
\<close>

record GuildPrefix =
  prefix_value :: string

record GuildSettingsAggregate =
  settings_guildId :: string
  prefix :: GuildPrefix
  categories :: "string \<rightharpoonup> string"

text \<open>
  Modelled from the spec: \<^verbatim>\<open>new GuildSettingsAggregate({ guildId })\<close> is "a new default
  aggregate for guildId (default prefix, empty category map)"; the default prefix is "!".
\<close>

definition new_GuildSettingsAggregate :: "string \<Rightarrow> GuildSettingsAggregate" where
  "new_GuildSettingsAggregate gid =
     \<lparr>settings_guildId = gid, prefix = \<lparr>prefix_value = ''!''\<rparr>, categories = Map.empty\<rparr>"

text \<open>
  Modelled from the spec: \<^verbatim>\<open>guildSettings.setPrefix({ prefix })\<close> is to "mutate the
  aggregate's prefix field in place".
\<close>

definition GuildSettingsAggregate_setPrefix ::
    "GuildSettingsAggregate \<Rightarrow> GuildPrefix \<Rightarrow> GuildSettingsAggregate" where
  "GuildSettingsAggregate_setPrefix guildSettings p = guildSettings\<lparr>prefix := p\<rparr>"

text \<open>The guild of the chat platform; only its \<^verbatim>\<open>id\<close> is read.\<close>

record Guild =
  guild_id :: string

subsection \<open>Repositories, probes and options\<close>

text \<open>
  The members of \<^verbatim>\<open>DbConnectionStatus\<close> are those the source names, in the table of
  \<^verbatim>\<open>setUp\<close> and as \<^verbatim>\<open>DbConnectionStatus.X\<close>.
\<close>

datatype DbConnectionStatus =
  DISCONNECTED | CONNECTED | CONNECTING | DISCONNECTING | UNKNOWN | NO_DATABASE

datatype Events = DATABASE_CONNECTED | LANGUAGE_NOT_SUPPORTED | COMMAND_EXCEPTION

text \<open>
  Modelled from the spec: the two repository interfaces (\<^verbatim>\<open>./persistence\<close> is not among the
  sources). \<^verbatim>\<open>findOne(guildId)\<close> resolves with an aggregate or with nothing, \<^verbatim>\<open>findAll()\<close>
  with a sequence of aggregates, \<^verbatim>\<open>save(aggregate)\<close> with the persisted aggregate. Each is
  an awaited call on the world and may reject.
\<close>

record 'w IGuildSettingsRepository =
  gs_findOne :: "string \<Rightarrow> ('w, GuildSettingsAggregate option) io"
  gs_findAll :: "('w, GuildSettingsAggregate list) io"
  gs_save :: "GuildSettingsAggregate \<Rightarrow> ('w, GuildSettingsAggregate) io"
  gs_delete :: "string \<Rightarrow> ('w, unit) io"

record 'w ICooldownRepository =
  cd_findOne :: "WhereOneInput \<Rightarrow> ('w, CooldownEntity) io"
  cd_delete :: "WhereOneInput \<Rightarrow> ('w, unit) io"
  cd_save :: "CooldownEntity \<Rightarrow> ('w, CooldownEntity) io"

text \<open>\<^verbatim>\<open>new MongoCooldownRepository()\<close>, over the collection it imports.\<close>

definition MongoCooldownRepository :: "'w Model \<Rightarrow> 'w ICooldownRepository" where
  "MongoCooldownRepository cooldownSchema =
     \<lparr>cd_findOne = MongoCooldownRepository_findOne,
      cd_delete = MongoCooldownRepository_delete cooldownSchema,
      cd_save = MongoCooldownRepository_save cooldownSchema\<rparr>"

text \<open>
  The connection that \<^verbatim>\<open>mongo(mongoUri, this, dbOptions)\<close> resolves with: its
  \<^verbatim>\<open>readyState\<close> is read from the world each time a probe runs.
\<close>

record 'w Connection =
  readyState :: "'w \<Rightarrow> int"

typedecl ConnectionOptions

text \<open>
  \<^verbatim>\<open>DbOptions = MongooseDBOptions | GenericDBOptions\<close>, discriminated by
  \<^verbatim>\<open>dbConnectionStrategy\<close>; of the other options only \<^verbatim>\<open>showWarns\<close> is read by the part of
  \<^verbatim>\<open>setUp\<close> that sets up persistence.
\<close>

datatype 'w DbOptions =
    MONGOOSE (mongoUri: "string option") (dbOptions: "ConnectionOptions option")
  | GENERIC (isDbConnected: "'w \<Rightarrow> bool")
            (getDbConnectionStatus: "'w \<Rightarrow> DbConnectionStatus")
            (guildSettingsRepository_of: "'w IGuildSettingsRepository")
            (cooldownRepository_of: "'w ICooldownRepository")

record 'w Options =
  showWarns :: "bool option"
  db :: "'w DbOptions"

text \<open>
  What \<^verbatim>\<open>setUp\<close> imports and the sources do not hold, taken as parameters: the connection
  function \<^verbatim>\<open>./persistence/mongo/connection\<close> (it may resolve with no connection: the code
  tests \<^verbatim>\<open>connection &&\<close>), the repository \<^verbatim>\<open>new MongoGuildSettingsRepository()\<close> and the
  cooldown collection.
\<close>

record 'w Env =
  mongo :: "string \<Rightarrow> ConnectionOptions option \<Rightarrow> ('w, 'w Connection option) io"
  new_MongoGuildSettingsRepository :: "'w IGuildSettingsRepository"
  cooldownSchema_of :: "'w Model"

subsection \<open>The instance and its state\<close>

text \<open>
  The private fields that persistence set-up, the accessors and the cache operations
  read or write (the leading underscore of the source is written \<open>priv_\<close>), the events
  emitted through the instance and the lines written to the console.
\<close>

record 'w WOKCommands =
  priv_guildSettings :: "string \<rightharpoonup> GuildSettingsAggregate"
  priv_isDbConnected :: "('w \<Rightarrow> bool) option"
  priv_getDbConnectionStatus :: "('w \<Rightarrow> error + DbConnectionStatus) option"
  priv_guildSettingsRepository :: "'w IGuildSettingsRepository option"
  priv_cooldownRepository :: "'w ICooldownRepository option"
  emitted :: "(Events \<times> DbConnectionStatus) list"
  console :: "string list"

text \<open>The instance together with the world its probes and repositories act on.\<close>

record 'w state =
  inst :: "'w WOKCommands"
  world :: 'w

definition emit :: "Events \<Rightarrow> DbConnectionStatus \<Rightarrow> 'w state \<Rightarrow> 'w state" where
  "emit e status s = s\<lparr>inst := (inst s)\<lparr>emitted := emitted (inst s) @ [(e, status)]\<rparr>\<rparr>"

definition console_warn :: "string \<Rightarrow> 'w state \<Rightarrow> 'w state" where
  "console_warn line s = s\<lparr>inst := (inst s)\<lparr>console := console (inst s) @ [line]\<rparr>\<rparr>"

subsection \<open>Probes and guarded accessors\<close>

definition isDBConnected :: "'w state \<Rightarrow> bool" where
  "isDBConnected s =
     (case priv_isDbConnected (inst s) of None \<Rightarrow> False | Some probe \<Rightarrow> probe (world s))"

definition dbConnectionStatus :: "'w state \<Rightarrow> error + DbConnectionStatus" where
  "dbConnectionStatus s =
     (case priv_getDbConnectionStatus (inst s) of
        None \<Rightarrow> Inr UNKNOWN
      | Some probe \<Rightarrow> probe (world s))"

definition guildSettingsRepository :: "'w state \<Rightarrow> error + 'w IGuildSettingsRepository" where
  "guildSettingsRepository s =
     (if \<not> isDBConnected s then Inl (Error ''DB not connected!'')
      else case priv_guildSettingsRepository (inst s) of
             None \<Rightarrow> Inl (Error ''_guildSettingsRepository not defined!'')
           | Some repository \<Rightarrow> Inr repository)"

definition cooldownRepository :: "'w state \<Rightarrow> error + 'w ICooldownRepository" where
  "cooldownRepository s =
     (if \<not> isDBConnected s then Inl (Error ''DB not connected!'')
      else case priv_cooldownRepository (inst s) of
             None \<Rightarrow> Inl (Error ''_cooldownRepository not defined!'')
           | Some repository \<Rightarrow> Inr repository)"

subsection \<open>The guild settings cache\<close>

definition setGuildSettings :: "string \<Rightarrow> GuildSettingsAggregate \<Rightarrow> 'w state \<Rightarrow> 'w state" where
  "setGuildSettings gid guildSettings s =
     s\<lparr>inst := (inst s)\<lparr>priv_guildSettings := (priv_guildSettings (inst s))(gid \<mapsto> guildSettings)\<rparr>\<rparr>"

definition getOrCreateGuildSettings ::
    "string \<Rightarrow> 'w state \<Rightarrow> (error + GuildSettingsAggregate) \<times> 'w state" where
  "getOrCreateGuildSettings gid s =
     (case priv_guildSettings (inst s) gid of
        Some guildSettings \<Rightarrow> (Inr guildSettings, s)
      | None \<Rightarrow>
          (case guildSettingsRepository s of
             Inl e \<Rightarrow> (Inl e, s)
           | Inr repository \<Rightarrow>
               (case gs_findOne repository gid (world s) of
                  (Inl e, w') \<Rightarrow> (Inl e, s\<lparr>world := w'\<rparr>)
                | (Inr found, w') \<Rightarrow>
                    (let guildSettings =
                           (case found of
                              Some stored \<Rightarrow> stored
                            | None \<Rightarrow> new_GuildSettingsAggregate gid)
                     in (Inr guildSettings,
                         setGuildSettings gid guildSettings (s\<lparr>world := w'\<rparr>))))))"

text \<open>
  \<^verbatim>\<open>setPrefix\<close> mutates the aggregate it resolved in place. That object is the one the cache
  holds under \<^verbatim>\<open>guild.id\<close> (found there, or put there by \<^verbatim>\<open>getOrCreateGuildSettings\<close>), so
  the mutation is written as an update of that cache entry; it stands whether or not the
  save that follows succeeds.
\<close>

definition setPrefix :: "Guild option \<Rightarrow> string \<Rightarrow> 'w state \<Rightarrow> (error + unit) \<times> 'w state" where
  "setPrefix guild new_prefix s =
     (case guild of
        None \<Rightarrow> (Inr (), s)
      | Some g \<Rightarrow>
          (case getOrCreateGuildSettings (guild_id g) s of
             (Inl e, s1) \<Rightarrow> (Inl e, s1)
           | (Inr guildSettings, s1) \<Rightarrow>
               (let mutated = GuildSettingsAggregate_setPrefix guildSettings
                                \<lparr>prefix_value = new_prefix\<rparr>;
                    s2 = setGuildSettings (guild_id g) mutated s1
                in case guildSettingsRepository s2 of
                     Inl e \<Rightarrow> (Inl e, s2)
                   | Inr repository \<Rightarrow>
                       (case gs_save repository mutated (world s2) of
                          (Inl e, w') \<Rightarrow> (Inl e, s2\<lparr>world := w'\<rparr>)
                        | (Inr updated, w') \<Rightarrow>
                            (Inr (), setGuildSettings (guild_id g) updated (s2\<lparr>world := w'\<rparr>))))))"

subsection \<open>Persistence set-up\<close>

text \<open>The table \<^verbatim>\<open>results\<close> from \<^verbatim>\<open>readyState\<close> to the name of a status.\<close>

definition results :: "int \<Rightarrow> string option" where
  "results n =
     (if n = 0 then Some ''DISCONNECTED''
      else if n = 1 then Some ''CONNECTED''
      else if n = 2 then Some ''CONNECTING''
      else if n = 3 then Some ''DISCONNECTING''
      else None)"

text \<open>
  Modelled from the spec: \<^verbatim>\<open>enumFromName(name, DbConnectionStatus)\<close> (\<^verbatim>\<open>./enums/utils\<close> is not
  among the sources) maps the name of a status to the status. The code passes it one of
  the four names of the table or "UNKNOWN"; any other name is mapped to \<open>UNKNOWN\<close> here.
\<close>

definition enumFromName :: "string \<Rightarrow> DbConnectionStatus" where
  "enumFromName name =
     (if name = ''DISCONNECTED'' then DISCONNECTED
      else if name = ''CONNECTED'' then CONNECTED
      else if name = ''CONNECTING'' then CONNECTING
      else if name = ''DISCONNECTING'' then DISCONNECTING
      else if name = ''NO_DATABASE'' then NO_DATABASE
      else UNKNOWN)"

text \<open>The two probes the built-in strategy derives from the connection.\<close>

definition mongoose_isDbConnected :: "'w Connection option \<Rightarrow> 'w \<Rightarrow> bool" where
  "mongoose_isDbConnected connection w =
     (case connection of None \<Rightarrow> False | Some c \<Rightarrow> readyState c w = 1)"

definition mongoose_getDbConnectionStatus ::
    "'w Connection option \<Rightarrow> 'w \<Rightarrow> error + DbConnectionStatus" where
  "mongoose_getDbConnectionStatus connection w =
     (case connection of
        None \<Rightarrow> Inl TypeError
      | Some c \<Rightarrow>
          Inr (enumFromName
                 (case results (readyState c w) of None \<Rightarrow> ''UNKNOWN'' | Some name \<Rightarrow> name)))"

text \<open>The branch taken when no strategy is selected: warn, unless told not to, and emit.\<close>

definition noDatabase :: "'w Options option \<Rightarrow> 'w state \<Rightarrow> 'w state" where
  "noDatabase options s =
     (let warns = (case options of
                     None \<Rightarrow> True
                   | Some opts \<Rightarrow> (case showWarns opts of None \<Rightarrow> True | Some b \<Rightarrow> b));
          s1 = (if warns
                then console_warn
                       (''WOKCommands > No DB connection info provided. Some features might not work! See this for more details:''
                        @ [CHR 0x0A] @ ''https://docs.wornoffkeys.com/databases'') s
                else s)
      in emit DATABASE_CONNECTED NO_DATABASE s1)"

text \<open>
  The selection of the strategy: it stores the probes and the repositories in the
  instance and resolves with \<^verbatim>\<open>useDb\<close>. A missing or empty \<^verbatim>\<open>mongoUri\<close> is falsy and
  selects no strategy.
\<close>

definition selectStrategy ::
    "'w Env \<Rightarrow> 'w Options option \<Rightarrow> 'w state \<Rightarrow> (error + bool) \<times> 'w state" where
  "selectStrategy env options s =
     (case options of
        None \<Rightarrow> (Inr False, noDatabase options s)
      | Some opts \<Rightarrow>
          (case db opts of
             MONGOOSE uri dbo \<Rightarrow>
               (case uri of
                  None \<Rightarrow> (Inr False, noDatabase options s)
                | Some u \<Rightarrow>
                    if u = [] then (Inr False, noDatabase options s)
                    else
                      (case mongo env u dbo (world s) of
                         (Inl e, w') \<Rightarrow> (Inl e, s\<lparr>world := w'\<rparr>)
                       | (Inr connection, w') \<Rightarrow>
                           (Inr True,
                            s\<lparr>world := w',
                              inst := (inst s)
                                \<lparr>priv_isDbConnected := Some (mongoose_isDbConnected connection),
                                 priv_getDbConnectionStatus :=
                                   Some (mongoose_getDbConnectionStatus connection),
                                 priv_guildSettingsRepository :=
                                   Some (new_MongoGuildSettingsRepository env),
                                 priv_cooldownRepository :=
                                   Some (MongoCooldownRepository (cooldownSchema_of env))\<rparr>\<rparr>)))
           | GENERIC connected status guildSettingsRepo cooldownRepo \<Rightarrow>
               (Inr True,
                s\<lparr>inst := (inst s)
                    \<lparr>priv_isDbConnected := Some connected,
                     priv_getDbConnectionStatus := Some (\<lambda>w. Inr (status w)),
                     priv_guildSettingsRepository := Some guildSettingsRepo,
                     priv_cooldownRepository := Some cooldownRepo\<rparr>\<rparr>)))"

text \<open>
  The block run when \<^verbatim>\<open>useDb\<close> is set: read the status, emit it, stop unless it is
  \<open>CONNECTED\<close>, then fetch all settings through the guarded accessor and build the cache
  from them, each aggregate under its \<^verbatim>\<open>guildId\<close>, later ones replacing earlier ones.
\<close>

definition warmGuildSettings :: "'w state \<Rightarrow> (error + unit) \<times> 'w state" where
  "warmGuildSettings s =
     (case dbConnectionStatus s of
        Inl e \<Rightarrow> (Inl e, s)
      | Inr connectionStatus \<Rightarrow>
          (let s1 = emit DATABASE_CONNECTED connectionStatus s in
           if connectionStatus \<noteq> CONNECTED then
             (Inl (Error ''WOKCommands > Database not connected!''), s1)
           else
             (case guildSettingsRepository s1 of
                Inl e \<Rightarrow> (Inl e, s1)
              | Inr repository \<Rightarrow>
                  (case gs_findAll repository (world s1) of
                     (Inl e, w') \<Rightarrow> (Inl e, s1\<lparr>world := w'\<rparr>)
                   | (Inr guildSettings, w') \<Rightarrow>
                       (Inr (),
                        s1\<lparr>world := w',
                           inst := (inst s1)
                             \<lparr>priv_guildSettings :=
                                foldl (\<lambda>agg settings. agg(settings_guildId settings \<mapsto> settings))
                                  Map.empty guildSettings\<rparr>\<rparr>)))))"

text \<open>
  \<^verbatim>\<open>setUp\<close>: the client check, the selection of the strategy and the warming of the cache.
  What follows in the method (the directory checks and the construction of the command,
  slash-command, message and feature handlers, the point from which commands are
  processed) is the continuation \<open>rest\<close>; it runs on the state the first part leaves,
  and only if the first part does not throw.
\<close>

definition setUp ::
    "'w Env \<Rightarrow> ('w state \<Rightarrow> (error + unit) \<times> 'w state) \<Rightarrow> 'c option \<Rightarrow> 'w Options option \<Rightarrow>
     'w state \<Rightarrow> (error + unit) \<times> 'w state" where
  "setUp env rest client options s =
     (case client of
        None \<Rightarrow> (Inl (Error ''No Discord JS Client provided as first argument!''), s)
      | Some _ \<Rightarrow>
          (case selectStrategy env options s of
             (Inl e, s1) \<Rightarrow> (Inl e, s1)
           | (Inr useDb, s1) \<Rightarrow>
               (if useDb then
                  (case warmGuildSettings s1 of
                     (Inl e, s2) \<Rightarrow> (Inl e, s2)
                   | (Inr _, s2) \<Rightarrow> rest s2)
                else rest s1)))"

text \<open>The state of a freshly constructed instance: every field at its initialiser.\<close>

definition new_WOKCommands :: "'w WOKCommands" where
  "new_WOKCommands =
     \<lparr>priv_guildSettings = Map.empty, priv_isDbConnected = None,
      priv_getDbConnectionStatus = None, priv_guildSettingsRepository = None,
      priv_cooldownRepository = None, emitted = [], console = []\<rparr>"

subsection \<open>A repository that records its calls, and example configurations\<close>

text \<open>
  A guild settings repository over a fixed list of stored aggregates whose state is the
  list of calls it has received. \<^verbatim>\<open>save\<close> resolves with the aggregate as the storage
  reconciled it (\<open>reconcile\<close>: the identity when the storage changes nothing).
\<close>

datatype repository_call =
    FindOne string
  | FindAll
  | Save GuildSettingsAggregate
  | Delete string

definition recordingRepository ::
    "GuildSettingsAggregate list \<Rightarrow> (GuildSettingsAggregate \<Rightarrow> GuildSettingsAggregate) \<Rightarrow>
     repository_call list IGuildSettingsRepository" where
  "recordingRepository stored reconcile =
     \<lparr>gs_findOne = (\<lambda>gid w. (Inr (find (\<lambda>a. settings_guildId a = gid) stored), w @ [FindOne gid])),
      gs_findAll = (\<lambda>w. (Inr stored, w @ [FindAll])),
      gs_save = (\<lambda>a w. (Inr (reconcile a), w @ [Save a])),
      gs_delete = (\<lambda>gid w. (Inr (), w @ [Delete gid]))\<rparr>"

text \<open>A cooldown collection that holds nothing and changes nothing.\<close>

definition idleModel :: "'w Model" where
  "idleModel =
     \<lparr>deleteOne = (\<lambda>f w. (Inr 0, w)),
      findOneAndUpdate = (\<lambda>f u opts w. (Inr None, w))\<rparr>"

definition exampleEnv :: "repository_call list Env" where
  "exampleEnv =
     \<lparr>mongo = (\<lambda>uri dbo w. (Inr None, w)),
      new_MongoGuildSettingsRepository = recordingRepository [] (\<lambda>a. a),
      cooldownSchema_of = idleModel\<rparr>"

text \<open>
  Options of the caller-supplied strategy: the two probes report \<open>connected\<close> and
  \<open>status\<close> whatever the world, the guild settings repository records its calls.
\<close>

definition genericOptions ::
    "bool \<Rightarrow> DbConnectionStatus \<Rightarrow> GuildSettingsAggregate list \<Rightarrow> repository_call list Options" where
  "genericOptions connected status stored =
     \<lparr>showWarns = None,
      db = GENERIC (\<lambda>w. connected) (\<lambda>w. status) (recordingRepository stored (\<lambda>a. a))
             (MongoCooldownRepository idleModel)\<rparr>"

text \<open>A freshly constructed instance with no call made yet.\<close>

definition freshState :: "repository_call list state" where
  "freshState = \<lparr>inst = new_WOKCommands, world = []\<rparr>"

text \<open>
  An instance whose probe reports a connection, with the given cache, over a recording
  repository with the given stored aggregates.
\<close>

definition connectedState ::
    "GuildSettingsAggregate list \<Rightarrow> (GuildSettingsAggregate \<Rightarrow> GuildSettingsAggregate) \<Rightarrow>
     (string \<rightharpoonup> GuildSettingsAggregate) \<Rightarrow> repository_call list state" where
  "connectedState stored reconcile cache =
     \<lparr>inst = \<lparr>priv_guildSettings = cache,
              priv_isDbConnected = Some (\<lambda>w. True),
              priv_getDbConnectionStatus = Some (\<lambda>w. Inr CONNECTED),
              priv_guildSettingsRepository = Some (recordingRepository stored reconcile),
              priv_cooldownRepository = Some (MongoCooldownRepository idleModel),
              emitted = [], console = []\<rparr>,
      world = []\<rparr>"

definition settings1 :: GuildSettingsAggregate where
  "settings1 =
     \<lparr>settings_guildId = ''g1'', prefix = \<lparr>prefix_value = ''?''\<rparr>, categories = Map.empty\<rparr>"

text \<open>A second aggregate for the guild of \<open>settings1\<close>, with another prefix.\<close>

definition settings1_later :: GuildSettingsAggregate where
  "settings1_later =
     \<lparr>settings_guildId = ''g1'', prefix = \<lparr>prefix_value = ''#''\<rparr>, categories = Map.empty\<rparr>"

definition settings3 :: GuildSettingsAggregate where
  "settings3 =
     \<lparr>settings_guildId = ''g3'', prefix = \<lparr>prefix_value = ''$''\<rparr>, categories = Map.empty\<rparr>"

section \<open>Properties of the cooldown repository\<close>

lemma getIdFromEntity_unrecognized:
  "type cooldown \<noteq> ''global'' \<Longrightarrow> type cooldown \<noteq> ''per-user'' \<Longrightarrow>
   getIdFromEntity cooldown = Inl (Error ''WOK Commands > unrecognized Cooldown type'')"
  by (simp add: getIdFromEntity_def)

text \<open>
  C1. The identity of a global-scoped entity is \<^verbatim>\<open>commandId + "-" + guildId\<close>, whatever
  its other fields; the identity of a per-user-scoped entity with user \<open>u\<close> is
  \<^verbatim>\<open>commandId + "-" + guildId + "-" + u\<close>. The derivation is a function of the entity alone:
  it takes no state and returns none.
\<close>

theorem getIdFromEntity_identity:
  "getIdFromEntity \<lparr>commandId = c, guildId = g, userId = u, type = ''global'',
                    secondsRemaining = s\<rparr> = Inr (c @ ''-'' @ g)
   \<and> getIdFromEntity \<lparr>commandId = c, guildId = g, userId = Some v, type = ''per-user'',
                      secondsRemaining = s\<rparr> = Inr (c @ ''-'' @ g @ ''-'' @ v)"
  by (simp add: getIdFromEntity_def template_def)

text \<open>
  C3. \<^verbatim>\<open>findOne\<close> rejects with the error "Method not implemented." on every input and in
  every state of the world, which it leaves as it is; it never resolves, so never with an
  absent result.
\<close>

theorem findOne_not_implemented:
  "MongoCooldownRepository_findOne input w = (Inl (Error ''Method not implemented.''), w)
   \<and> (\<forall>r. fst (MongoCooldownRepository_findOne input w) \<noteq> Inr r)"
  by (simp add: MongoCooldownRepository_findOne_def)

lemma getIdFromWhereOneInput_type_update:
  "getIdFromWhereOneInput (cooldown\<lparr>type := t\<rparr>) = getIdFromWhereOneInput cooldown"
  by (simp add: getIdFromWhereOneInput_def)

text \<open>
  C2, as stated, fails for \<^verbatim>\<open>delete\<close>: its input \<^verbatim>\<open>{ commandId, guildId, userId? }\<close> has no
  scope, and an entity with the unrecognized scope "weekly" passed to it is deleted like
  any other: the call \<^verbatim>\<open>deleteOne({ _id: "ban-g1", name: "ban" })\<close> is issued and the
  operation resolves.
\<close>

theorem delete_ignores_scope_counterexample:
  "MongoCooldownRepository_delete recordingModel
     \<lparr>commandId = ''ban'', guildId = ''g1'', userId = None, type = ''weekly'',
      secondsRemaining = 5\<rparr> []
   = (Inr (), [DeleteOne \<lparr>q_id = ''ban-g1'', q_name = ''ban'', q_type = None\<rparr>])"
  by (simp add: MongoCooldownRepository_delete_def recordingModel_def
      getIdFromWhereOneInput_def truthy_def)

text \<open>
  C2, amended. For every cooldown entity whose scope is neither "global" nor "per-user",
  \<^verbatim>\<open>save\<close> rejects with the error "WOK Commands > unrecognized Cooldown type" and returns
  the state of every collection as it found it: no storage call is issued, nothing is
  written. \<^verbatim>\<open>delete\<close> does not read the scope: on such an entity it does what it does on
  the same entity with a recognized scope.
\<close>

theorem save_unrecognized_type_fails_before_io:
  assumes "type cooldown \<noteq> ''global''" and "type cooldown \<noteq> ''per-user''"
  shows "MongoCooldownRepository_save cooldownSchema cooldown w
           = (Inl (Error ''WOK Commands > unrecognized Cooldown type''), w)
         \<and> MongoCooldownRepository_delete cooldownSchema cooldown w
           = MongoCooldownRepository_delete cooldownSchema (cooldown\<lparr>type := ''global''\<rparr>) w"
proof
  from assms have "getIdFromEntity cooldown
      = Inl (Error ''WOK Commands > unrecognized Cooldown type'')"
    by (rule getIdFromEntity_unrecognized)
  then show "MongoCooldownRepository_save cooldownSchema cooldown w
           = (Inl (Error ''WOK Commands > unrecognized Cooldown type''), w)"
    by (simp add: MongoCooldownRepository_save_def)
next
  show "MongoCooldownRepository_delete cooldownSchema cooldown w
           = MongoCooldownRepository_delete cooldownSchema (cooldown\<lparr>type := ''global''\<rparr>) w"
    by (simp add: MongoCooldownRepository_delete_def getIdFromWhereOneInput_type_update)
qed

theorem save_unrecognized_type_fails_before_io_witness:
  "MongoCooldownRepository_save recordingModel
     \<lparr>commandId = ''ban'', guildId = ''g1'', userId = None, type = ''weekly'',
      secondsRemaining = 5\<rparr> []
   = (Inl (Error ''WOK Commands > unrecognized Cooldown type''), [])
   \<and> MongoCooldownRepository_delete recordingModel
     \<lparr>commandId = ''ban'', guildId = ''g1'', userId = None, type = ''weekly'',
      secondsRemaining = 5\<rparr> []
   = MongoCooldownRepository_delete recordingModel
     \<lparr>commandId = ''ban'', guildId = ''g1'', userId = None, type = ''global'',
      secondsRemaining = 5\<rparr> []"
  using save_unrecognized_type_fails_before_io
    [of "\<lparr>commandId = ''ban'', guildId = ''g1'', userId = None, type = ''weekly'',
      secondsRemaining = 5\<rparr>" recordingModel "[]"]
  by simp

text \<open>
  C8, as stated, fails for the empty user id: the query \<^verbatim>\<open>{ commandId: "ban", guildId:
  "g1", userId: "" }\<close> has a falsy \<^verbatim>\<open>userId\<close> and gets no suffix, where the per-user entity
  with the same fields gets the separator and the empty id.
\<close>

theorem where_input_identity_counterexample:
  "getIdFromEntity \<lparr>commandId = ''ban'', guildId = ''g1'', userId = Some [],
       type = ''per-user'', secondsRemaining = 5\<rparr> = Inr ''ban-g1-''
   \<and> getIdFromWhereOneInput \<lparr>commandId = ''ban'', guildId = ''g1'', userId = Some []\<rparr>
       = ''ban-g1''"
  by (simp add: getIdFromEntity_def getIdFromWhereOneInput_def truthy_def template_def)

text \<open>
  C8, amended. The identity derived from \<^verbatim>\<open>{ commandId, guildId }\<close> with no user id is the
  identity of the global-scoped entity with those fields, and for every non-empty user id
  the identity derived from \<^verbatim>\<open>{ commandId, guildId, userId }\<close> is the identity of the
  per-user-scoped entity with those fields.
\<close>

theorem where_input_identity_consistent:
  "getIdFromEntity \<lparr>commandId = c, guildId = g, userId = u, type = ''global'',
                    secondsRemaining = s\<rparr>
     = Inr (getIdFromWhereOneInput \<lparr>commandId = c, guildId = g, userId = None\<rparr>)
   \<and> (v \<noteq> [] \<longrightarrow>
      getIdFromEntity \<lparr>commandId = c, guildId = g, userId = Some v, type = ''per-user'',
                    secondsRemaining = s\<rparr>
     = Inr (getIdFromWhereOneInput \<lparr>commandId = c, guildId = g, userId = Some v\<rparr>))"
  by (simp add: getIdFromEntity_def getIdFromWhereOneInput_def truthy_def template_def)

theorem where_input_identity_consistent_witness:
  "''u1'' \<noteq> []
   \<and> getIdFromEntity \<lparr>commandId = ''ban'', guildId = ''g1'', userId = Some ''u1'',
       type = ''per-user'', secondsRemaining = 5\<rparr>
     = Inr (getIdFromWhereOneInput
             \<lparr>commandId = ''ban'', guildId = ''g1'', userId = Some ''u1''\<rparr>)
   \<and> getIdFromWhereOneInput \<lparr>commandId = ''ban'', guildId = ''g1'', userId = Some ''u1''\<rparr>
     = ''ban-g1-u1''"
  using where_input_identity_consistent [of "''ban''" "''g1''" None 5 "''u1''"]
  by (simp add: getIdFromWhereOneInput_def truthy_def template_def)

lemma store_deleteOne_other:
  "k \<noteq> q_id f \<Longrightarrow> snd (store_deleteOne f st) k = st k"
  by (simp add: store_deleteOne_def split: option.split)

lemma delete_state:
  "snd (MongoCooldownRepository_delete cooldownSchema input w)
   = snd (deleteOne cooldownSchema
            \<lparr>q_id = getIdFromWhereOneInput input, q_name = commandId input, q_type = None\<rparr> w)"
  by (simp add: MongoCooldownRepository_delete_def Let_def split: prod.split sum.split)

text \<open>
  C9. On the stored collection, \<^verbatim>\<open>delete({ commandId: "ban", guildId: "g1" })\<close> removes the
  document stored under \<^verbatim>\<open>_id\<close> "ban-g1", whose name is "ban", and no other; for every
  query, the documents under other keys stay as they are; and for every query whose
  derived key is the \<^verbatim>\<open>_id\<close> of no stored document, \<^verbatim>\<open>delete\<close> resolves and leaves the
  collection unchanged.
\<close>

theorem delete_removes_matching_document:
  "(st ''ban-g1'' = Some d \<and> doc_name d = ''ban'' \<longrightarrow>
      MongoCooldownRepository_delete
        \<lparr>deleteOne = store_deleteOne, findOneAndUpdate = fu\<rparr>
        \<lparr>commandId = ''ban'', guildId = ''g1'', userId = None\<rparr> st
      = (Inr (), st(''ban-g1'' := None)))
   \<and> (k \<noteq> getIdFromWhereOneInput input \<longrightarrow>
      snd (MongoCooldownRepository_delete
             \<lparr>deleteOne = store_deleteOne, findOneAndUpdate = fu\<rparr> input st) k = st k)
   \<and> (st (getIdFromWhereOneInput input) = None \<longrightarrow>
      MongoCooldownRepository_delete
        \<lparr>deleteOne = store_deleteOne, findOneAndUpdate = fu\<rparr> input st
      = (Inr (), st))"
proof (intro conjI impI)
  assume "st ''ban-g1'' = Some d \<and> doc_name d = ''ban''"
  then show "MongoCooldownRepository_delete
        \<lparr>deleteOne = store_deleteOne, findOneAndUpdate = fu\<rparr>
        \<lparr>commandId = ''ban'', guildId = ''g1'', userId = None\<rparr> st
      = (Inr (), st(''ban-g1'' := None))"
    by (simp add: MongoCooldownRepository_delete_def store_deleteOne_def matches_def
        getIdFromWhereOneInput_def truthy_def)
next
  assume "k \<noteq> getIdFromWhereOneInput input"
  then show "snd (MongoCooldownRepository_delete
             \<lparr>deleteOne = store_deleteOne, findOneAndUpdate = fu\<rparr> input st) k = st k"
    by (simp add: delete_state store_deleteOne_other)
next
  assume "st (getIdFromWhereOneInput input) = None"
  then show "MongoCooldownRepository_delete
        \<lparr>deleteOne = store_deleteOne, findOneAndUpdate = fu\<rparr> input st
      = (Inr (), st)"
    by (simp add: MongoCooldownRepository_delete_def store_deleteOne_def)
qed

theorem delete_removes_matching_document_witness:
  "[''ban-g1'' \<mapsto> \<lparr>doc_id = ''ban-g1'', doc_name = ''ban'', doc_type = ''global'',
                     doc_cooldown = 5\<rparr>,
    ''kick-g1'' \<mapsto> \<lparr>doc_id = ''kick-g1'', doc_name = ''kick'', doc_type = ''global'',
                     doc_cooldown = 9\<rparr>] ''ban-g1''
     = Some \<lparr>doc_id = ''ban-g1'', doc_name = ''ban'', doc_type = ''global'', doc_cooldown = 5\<rparr>
   \<and> MongoCooldownRepository_delete
        \<lparr>deleteOne = store_deleteOne, findOneAndUpdate = (\<lambda>f u opts w. (Inr None, w))\<rparr>
        \<lparr>commandId = ''ban'', guildId = ''g1'', userId = None\<rparr>
        [''ban-g1'' \<mapsto> \<lparr>doc_id = ''ban-g1'', doc_name = ''ban'', doc_type = ''global'',
                          doc_cooldown = 5\<rparr>,
         ''kick-g1'' \<mapsto> \<lparr>doc_id = ''kick-g1'', doc_name = ''kick'', doc_type = ''global'',
                          doc_cooldown = 9\<rparr>]
      = (Inr (), [''kick-g1'' \<mapsto> \<lparr>doc_id = ''kick-g1'', doc_name = ''kick'',
                                   doc_type = ''global'', doc_cooldown = 9\<rparr>])
   \<and> MongoCooldownRepository_delete
        \<lparr>deleteOne = store_deleteOne, findOneAndUpdate = (\<lambda>f u opts w. (Inr None, w))\<rparr>
        \<lparr>commandId = ''mute'', guildId = ''g1'', userId = None\<rparr>
        [''ban-g1'' \<mapsto> \<lparr>doc_id = ''ban-g1'', doc_name = ''ban'', doc_type = ''global'',
                          doc_cooldown = 5\<rparr>,
         ''kick-g1'' \<mapsto> \<lparr>doc_id = ''kick-g1'', doc_name = ''kick'', doc_type = ''global'',
                          doc_cooldown = 9\<rparr>]
      = (Inr (), [''ban-g1'' \<mapsto> \<lparr>doc_id = ''ban-g1'', doc_name = ''ban'',
                                  doc_type = ''global'', doc_cooldown = 5\<rparr>,
                  ''kick-g1'' \<mapsto> \<lparr>doc_id = ''kick-g1'', doc_name = ''kick'',
                                   doc_type = ''global'', doc_cooldown = 9\<rparr>])"
  using delete_removes_matching_document
    [where st = "[''ban-g1'' \<mapsto> \<lparr>doc_id = ''ban-g1'', doc_name = ''ban'',
                                  doc_type = ''global'', doc_cooldown = 5\<rparr>,
                  ''kick-g1'' \<mapsto> \<lparr>doc_id = ''kick-g1'', doc_name = ''kick'',
                                   doc_type = ''global'', doc_cooldown = 9\<rparr>]"
       and d = "\<lparr>doc_id = ''ban-g1'', doc_name = ''ban'', doc_type = ''global'',
                 doc_cooldown = 5\<rparr>"
       and fu = "\<lambda>f u opts w. (Inr None, w)"
       and k = "''kick-g1''"
       and input = "\<lparr>commandId = ''mute'', guildId = ''g1'', userId = None\<rparr>"]
  by (simp add: getIdFromWhereOneInput_def truthy_def fun_upd_twist)

text \<open>
  C10. For every cooldown entity with a recognized scope the identity is derived, and
  whenever the upsert that \<^verbatim>\<open>save\<close> then issues resolves, with whatever document the
  storage reports, \<^verbatim>\<open>save\<close> resolves with the entity it was given, all fields as they
  were; a rejected upsert rejects \<^verbatim>\<open>save\<close> with the same error.
\<close>

theorem save_returns_argument:
  assumes "type cooldown = ''global'' \<or> type cooldown = ''per-user''"
  shows "\<exists>x_id. getIdFromEntity cooldown = Inr x_id \<and>
     (\<forall>stored w'.
        findOneAndUpdate cooldownSchema
          \<lparr>q_id = x_id, q_name = commandId cooldown, q_type = Some (type cooldown)\<rparr>
          \<lparr>doc_id = x_id, doc_name = commandId cooldown, doc_type = type cooldown,
           doc_cooldown = secondsRemaining cooldown\<rparr>
          \<lparr>upsert = True\<rparr> w = (Inr stored, w')
        \<longrightarrow> MongoCooldownRepository_save cooldownSchema cooldown w = (Inr cooldown, w')) \<and>
     (\<forall>e w'.
        findOneAndUpdate cooldownSchema
          \<lparr>q_id = x_id, q_name = commandId cooldown, q_type = Some (type cooldown)\<rparr>
          \<lparr>doc_id = x_id, doc_name = commandId cooldown, doc_type = type cooldown,
           doc_cooldown = secondsRemaining cooldown\<rparr>
          \<lparr>upsert = True\<rparr> w = (Inl e, w')
        \<longrightarrow> MongoCooldownRepository_save cooldownSchema cooldown w = (Inl e, w'))"
  using assms
  by (auto simp add: MongoCooldownRepository_save_def getIdFromEntity_def)

theorem save_returns_argument_witness:
  "MongoCooldownRepository_save
     \<lparr>deleteOne = (\<lambda>f w. (Inr 0, w)),
      findOneAndUpdate = (\<lambda>f u opts w. (Inr (Some (u\<lparr>doc_cooldown := 0\<rparr>)), w @ [u]))\<rparr>
     \<lparr>commandId = ''ban'', guildId = ''g1'', userId = Some ''u1'', type = ''per-user'',
      secondsRemaining = 5\<rparr> []
   = (Inr \<lparr>commandId = ''ban'', guildId = ''g1'', userId = Some ''u1'', type = ''per-user'',
           secondsRemaining = 5\<rparr>,
      [\<lparr>doc_id = ''ban-g1-u1'', doc_name = ''ban'', doc_type = ''per-user'',
        doc_cooldown = 5\<rparr>])"
  using save_returns_argument
    [of "\<lparr>commandId = ''ban'', guildId = ''g1'', userId = Some ''u1'', type = ''per-user'',
          secondsRemaining = 5\<rparr>"
        "\<lparr>deleteOne = (\<lambda>f w. (Inr 0, w)),
          findOneAndUpdate = (\<lambda>f u opts w. (Inr (Some (u\<lparr>doc_cooldown := 0\<rparr>)), w @ [u]))\<rparr>"
        "[]"]
  by (simp add: getIdFromEntity_def template_def)

section \<open>Properties of the orchestrator\<close>

lemma guildSettingsRepository_emit:
  "guildSettingsRepository (emit e st s) = guildSettingsRepository s"
  by (simp add: guildSettingsRepository_def isDBConnected_def emit_def split: option.split)

lemma guildSettingsRepository_setGuildSettings:
  "guildSettingsRepository (setGuildSettings gid a s) = guildSettingsRepository s"
  by (simp add: guildSettingsRepository_def isDBConnected_def setGuildSettings_def
      split: option.split)

lemma world_setGuildSettings: "world (setGuildSettings gid a s) = world s"
  by (simp add: setGuildSettings_def)

lemma world_emit: "world (emit e st s) = world s"
  by (simp add: emit_def)

lemma setGuildSettings_twice:
  "setGuildSettings gid b (setGuildSettings gid a s\<lparr>world := w\<rparr>)
   = setGuildSettings gid b (s\<lparr>world := w\<rparr>)"
  by (simp add: setGuildSettings_def)

lemma setGuildSettings_lookup:
  "priv_guildSettings (inst (setGuildSettings gid a s)) gid = Some a"
  by (simp add: setGuildSettings_def)

lemmas state_simps =
  guildSettingsRepository_emit guildSettingsRepository_setGuildSettings
  world_setGuildSettings world_emit setGuildSettings_twice setGuildSettings_lookup

lemma guildSettingsRepository_connectedState:
  "guildSettingsRepository (connectedState stored reconcile cache)
   = Inr (recordingRepository stored reconcile)"
  by (simp add: guildSettingsRepository_def isDBConnected_def connectedState_def)

lemma guildSettingsRepository_freshState:
  "guildSettingsRepository freshState = Inl (Error ''DB not connected!'')"
  by (simp add: freshState_def new_WOKCommands_def guildSettingsRepository_def
      isDBConnected_def)

text \<open>
  C4. Whenever \<^verbatim>\<open>isDBConnected()\<close> is false, because the probe reports false or because no
  probe was ever stored, both guarded accessors throw "DB not connected!". An accessor
  reads the state and returns none; throwing, it hands out no repository on which a call
  could be made.
\<close>

theorem accessors_fail_when_not_connected:
  assumes "\<not> isDBConnected s"
  shows "guildSettingsRepository s = Inl (Error ''DB not connected!'')
       \<and> cooldownRepository s = Inl (Error ''DB not connected!'')"
  using assms by (simp add: guildSettingsRepository_def cooldownRepository_def)

theorem accessors_fail_when_not_connected_witness:
  "\<not> isDBConnected freshState
   \<and> guildSettingsRepository freshState = Inl (Error ''DB not connected!'')
   \<and> cooldownRepository freshState = Inl (Error ''DB not connected!'')
   \<and> \<not> isDBConnected
         (snd (selectStrategy exampleEnv (Some (genericOptions False CONNECTED [settings1]))
                 freshState))
   \<and> guildSettingsRepository
         (snd (selectStrategy exampleEnv (Some (genericOptions False CONNECTED [settings1]))
                 freshState)) = Inl (Error ''DB not connected!'')
   \<and> cooldownRepository
         (snd (selectStrategy exampleEnv (Some (genericOptions False CONNECTED [settings1]))
                 freshState)) = Inl (Error ''DB not connected!'')"
proof -
  let ?down = "snd (selectStrategy exampleEnv (Some (genericOptions False CONNECTED [settings1]))
                      freshState)"
  have none: "\<not> isDBConnected freshState"
    by (simp add: isDBConnected_def freshState_def new_WOKCommands_def)
  have false: "\<not> isDBConnected ?down"
    by (simp add: isDBConnected_def selectStrategy_def genericOptions_def)
  from accessors_fail_when_not_connected [OF none]
       accessors_fail_when_not_connected [OF false] none false
  show ?thesis by blast
qed

text \<open>
  C5, as stated, fails on an instance without a connected database: on a cache miss the
  guarded accessor throws, \<^verbatim>\<open>findOne\<close> is not called (the recording repository sees no
  call), no aggregate is constructed, stored or returned.
\<close>

theorem getOrCreateGuildSettings_gate_counterexample:
  "getOrCreateGuildSettings ''g2'' freshState = (Inl (Error ''DB not connected!''), freshState)"
proof -
  have "priv_guildSettings (inst freshState) ''g2'' = None"
    by (simp add: freshState_def new_WOKCommands_def)
  then show ?thesis
    by (simp add: getOrCreateGuildSettings_def guildSettingsRepository_freshState)
qed

text \<open>
  C5, amended. If the cache holds an aggregate for the guild, it is returned and the
  state, the world included, is left as it is: no repository is called. On a cache miss,
  when the guarded accessor yields the repository, its \<^verbatim>\<open>findOne(guildId)\<close> is called, once;
  if it resolves with an aggregate, that one, and if it resolves with nothing, a new
  default aggregate for the guild, is stored in the cache under the guild's id and
  returned. On a cache miss, when the accessor throws (the database is not connected, or
  no repository is configured), the call fails with that error and changes nothing; when
  \<^verbatim>\<open>findOne\<close> rejects, the call fails with that error and the cache is left as it was.
\<close>

theorem getOrCreateGuildSettings_cache_aside:
  "(priv_guildSettings (inst s) gid = Some cached \<longrightarrow>
      getOrCreateGuildSettings gid s = (Inr cached, s))
   \<and> (priv_guildSettings (inst s) gid = None \<and> guildSettingsRepository s = Inr repository
       \<and> gs_findOne repository gid (world s) = (Inr (Some stored), w') \<longrightarrow>
      getOrCreateGuildSettings gid s
        = (Inr stored, setGuildSettings gid stored (s\<lparr>world := w'\<rparr>)))
   \<and> (priv_guildSettings (inst s) gid = None \<and> guildSettingsRepository s = Inr repository
       \<and> gs_findOne repository gid (world s) = (Inr None, w') \<longrightarrow>
      getOrCreateGuildSettings gid s
        = (Inr (new_GuildSettingsAggregate gid),
           setGuildSettings gid (new_GuildSettingsAggregate gid) (s\<lparr>world := w'\<rparr>)))
   \<and> (priv_guildSettings (inst s) gid = None \<and> guildSettingsRepository s = Inl e \<longrightarrow>
      getOrCreateGuildSettings gid s = (Inl e, s))
   \<and> (priv_guildSettings (inst s) gid = None \<and> guildSettingsRepository s = Inr repository
       \<and> gs_findOne repository gid (world s) = (Inl e, w') \<longrightarrow>
      getOrCreateGuildSettings gid s = (Inl e, s\<lparr>world := w'\<rparr>))"
  by (simp add: getOrCreateGuildSettings_def Let_def)

theorem getOrCreateGuildSettings_cache_aside_witness:
  "getOrCreateGuildSettings ''g1'' (connectedState [] (\<lambda>a. a) [''g1'' \<mapsto> settings1])
     = (Inr settings1, connectedState [] (\<lambda>a. a) [''g1'' \<mapsto> settings1])
   \<and> getOrCreateGuildSettings ''g1'' (connectedState [settings1] (\<lambda>a. a) Map.empty)
     = (Inr settings1,
        setGuildSettings ''g1'' settings1
          (connectedState [settings1] (\<lambda>a. a) Map.empty\<lparr>world := [FindOne ''g1'']\<rparr>))
   \<and> getOrCreateGuildSettings ''g2'' (connectedState [settings1] (\<lambda>a. a) Map.empty)
     = (Inr (new_GuildSettingsAggregate ''g2''),
        setGuildSettings ''g2'' (new_GuildSettingsAggregate ''g2'')
          (connectedState [settings1] (\<lambda>a. a) Map.empty\<lparr>world := [FindOne ''g2'']\<rparr>))
   \<and> getOrCreateGuildSettings ''g3'' freshState = (Inl (Error ''DB not connected!''), freshState)"
proof -
  have hit: "priv_guildSettings (inst (connectedState [] (\<lambda>a. a) [''g1'' \<mapsto> settings1])) ''g1''
      = Some settings1"
    by (simp add: connectedState_def)
  have miss: "priv_guildSettings (inst (connectedState [settings1] (\<lambda>a. a) Map.empty)) gid = None"
    for gid
    by (simp add: connectedState_def)
  have found: "gs_findOne (recordingRepository [settings1] (\<lambda>a. a)) ''g1''
        (world (connectedState [settings1] (\<lambda>a. a) Map.empty))
      = (Inr (Some settings1), [FindOne ''g1''])"
    by (simp add: recordingRepository_def connectedState_def settings1_def)
  have absent: "gs_findOne (recordingRepository [settings1] (\<lambda>a. a)) ''g2''
        (world (connectedState [settings1] (\<lambda>a. a) Map.empty))
      = (Inr None, [FindOne ''g2''])"
    by (simp add: recordingRepository_def connectedState_def settings1_def)
  have fresh: "priv_guildSettings (inst freshState) ''g3'' = None"
    by (simp add: freshState_def new_WOKCommands_def)
  from getOrCreateGuildSettings_cache_aside
         [where s = "connectedState [] (\<lambda>a. a) [''g1'' \<mapsto> settings1]" and gid = "''g1''"
            and cached = settings1] hit
  have c1: "getOrCreateGuildSettings ''g1'' (connectedState [] (\<lambda>a. a) [''g1'' \<mapsto> settings1])
     = (Inr settings1, connectedState [] (\<lambda>a. a) [''g1'' \<mapsto> settings1])"
    by blast
  from getOrCreateGuildSettings_cache_aside
         [where s = "connectedState [settings1] (\<lambda>a. a) Map.empty" and gid = "''g1''"
            and repository = "recordingRepository [settings1] (\<lambda>a. a)"
            and stored = settings1 and w' = "[FindOne ''g1'']"]
       miss found guildSettingsRepository_connectedState
  have c2: "getOrCreateGuildSettings ''g1'' (connectedState [settings1] (\<lambda>a. a) Map.empty)
     = (Inr settings1,
        setGuildSettings ''g1'' settings1
          (connectedState [settings1] (\<lambda>a. a) Map.empty\<lparr>world := [FindOne ''g1'']\<rparr>))"
    by blast
  from getOrCreateGuildSettings_cache_aside
         [where s = "connectedState [settings1] (\<lambda>a. a) Map.empty" and gid = "''g2''"
            and repository = "recordingRepository [settings1] (\<lambda>a. a)"
            and w' = "[FindOne ''g2'']"]
       miss absent guildSettingsRepository_connectedState
  have c3: "getOrCreateGuildSettings ''g2'' (connectedState [settings1] (\<lambda>a. a) Map.empty)
     = (Inr (new_GuildSettingsAggregate ''g2''),
        setGuildSettings ''g2'' (new_GuildSettingsAggregate ''g2'')
          (connectedState [settings1] (\<lambda>a. a) Map.empty\<lparr>world := [FindOne ''g2'']\<rparr>))"
    by blast
  from getOrCreateGuildSettings_cache_aside
         [where s = freshState and gid = "''g3''" and e = "Error ''DB not connected!''"]
       fresh guildSettingsRepository_freshState
  have c4: "getOrCreateGuildSettings ''g3'' freshState
     = (Inl (Error ''DB not connected!''), freshState)"
    by blast
  from c1 c2 c3 c4 show ?thesis by blast
qed

text \<open>
  C6, as stated, fails when the database is not connected: with the guild's aggregate in
  the cache, \<^verbatim>\<open>setPrefix\<close> mutates it and then throws at the guarded accessor. Nothing is
  saved (the world is as it was), and the cache entry is the locally mutated aggregate,
  not a value returned by \<^verbatim>\<open>save\<close>.
\<close>

theorem setPrefix_gate_counterexample:
  "setPrefix (Some \<lparr>guild_id = ''g1''\<rparr>) ''+'' (setGuildSettings ''g1'' settings1 freshState)
     = (Inl (Error ''DB not connected!''),
        setGuildSettings ''g1''
          (GuildSettingsAggregate_setPrefix settings1 \<lparr>prefix_value = ''+''\<rparr>) freshState)
   \<and> world (setGuildSettings ''g1''
          (GuildSettingsAggregate_setPrefix settings1 \<lparr>prefix_value = ''+''\<rparr>) freshState) = []"
proof -
  have hit: "getOrCreateGuildSettings ''g1'' (setGuildSettings ''g1'' settings1 freshState)
      = (Inr settings1, setGuildSettings ''g1'' settings1 freshState)"
    by (simp add: getOrCreateGuildSettings_def setGuildSettings_lookup)
  have twice: "setGuildSettings ''g1'' b (setGuildSettings ''g1'' settings1 freshState)
      = setGuildSettings ''g1'' b freshState" for b
    by (simp add: setGuildSettings_def)
  have "world freshState = []"
    by (simp add: freshState_def)
  with hit twice show ?thesis
    by (simp add: setPrefix_def Let_def guildSettingsRepository_freshState state_simps)
qed

text \<open>
  C6, amended. If the guild is absent, \<^verbatim>\<open>setPrefix\<close> returns and changes nothing. Otherwise
  the guild's aggregate is resolved or created and its prefix is mutated; when the guarded
  accessor then yields the repository and its \<^verbatim>\<open>save\<close> of the mutated aggregate resolves,
  the cache entry for \<^verbatim>\<open>guild.id\<close> is the value \<^verbatim>\<open>save\<close> resolved with. When the accessor
  throws (the database is not connected, or no repository is configured), \<^verbatim>\<open>setPrefix\<close>
  fails with that error, nothing is saved, and the cache entry is the mutated aggregate;
  when \<^verbatim>\<open>save\<close> rejects, \<^verbatim>\<open>setPrefix\<close> fails with that error and the cache entry is the
  mutated aggregate; when resolving the aggregate fails, \<^verbatim>\<open>setPrefix\<close> fails with that
  error.
\<close>

theorem setPrefix_persists_and_caches:
  "setPrefix None p s = (Inr (), s)
   \<and> (getOrCreateGuildSettings (guild_id g) s = (Inr a, s1)
       \<and> guildSettingsRepository s1 = Inr repository
       \<and> gs_save repository (GuildSettingsAggregate_setPrefix a \<lparr>prefix_value = p\<rparr>) (world s1)
           = (Inr updated, w') \<longrightarrow>
      setPrefix (Some g) p s = (Inr (), setGuildSettings (guild_id g) updated (s1\<lparr>world := w'\<rparr>))
      \<and> priv_guildSettings (inst (snd (setPrefix (Some g) p s))) (guild_id g) = Some updated)
   \<and> (getOrCreateGuildSettings (guild_id g) s = (Inr a, s1)
       \<and> guildSettingsRepository s1 = Inl e \<longrightarrow>
      setPrefix (Some g) p s
        = (Inl e, setGuildSettings (guild_id g)
                    (GuildSettingsAggregate_setPrefix a \<lparr>prefix_value = p\<rparr>) s1))
   \<and> (getOrCreateGuildSettings (guild_id g) s = (Inr a, s1)
       \<and> guildSettingsRepository s1 = Inr repository
       \<and> gs_save repository (GuildSettingsAggregate_setPrefix a \<lparr>prefix_value = p\<rparr>) (world s1)
           = (Inl e, w') \<longrightarrow>
      setPrefix (Some g) p s
        = (Inl e, (setGuildSettings (guild_id g)
                     (GuildSettingsAggregate_setPrefix a \<lparr>prefix_value = p\<rparr>) s1)
                  \<lparr>world := w'\<rparr>))
   \<and> (getOrCreateGuildSettings (guild_id g) s = (Inl e, s1) \<longrightarrow>
      setPrefix (Some g) p s = (Inl e, s1))"
  by (simp add: setPrefix_def Let_def state_simps)

theorem setPrefix_persists_and_caches_witness:
  "setPrefix None ''+''
       (connectedState [] (\<lambda>a. a\<lparr>categories := [''Help'' \<mapsto> ''h'']\<rparr>) [''g1'' \<mapsto> settings1])
     = (Inr (),
        connectedState [] (\<lambda>a. a\<lparr>categories := [''Help'' \<mapsto> ''h'']\<rparr>) [''g1'' \<mapsto> settings1])
   \<and> setPrefix (Some \<lparr>guild_id = ''g1''\<rparr>) ''+''
       (connectedState [] (\<lambda>a. a\<lparr>categories := [''Help'' \<mapsto> ''h'']\<rparr>) [''g1'' \<mapsto> settings1])
     = (Inr (),
        setGuildSettings ''g1''
          \<lparr>settings_guildId = ''g1'', prefix = \<lparr>prefix_value = ''+''\<rparr>,
           categories = [''Help'' \<mapsto> ''h'']\<rparr>
          (connectedState [] (\<lambda>a. a\<lparr>categories := [''Help'' \<mapsto> ''h'']\<rparr>)
             [''g1'' \<mapsto> settings1]
           \<lparr>world := [Save \<lparr>settings_guildId = ''g1'', prefix = \<lparr>prefix_value = ''+''\<rparr>,
                             categories = Map.empty\<rparr>]\<rparr>))"
proof -
  let ?reconcile = "\<lambda>a. a\<lparr>categories := [''Help'' \<mapsto> ''h'']\<rparr>"
  let ?s = "connectedState [] ?reconcile [''g1'' \<mapsto> settings1]"
  let ?mutated = "\<lparr>settings_guildId = ''g1'', prefix = \<lparr>prefix_value = ''+''\<rparr>,
                   categories = Map.empty\<rparr>"
  have hit: "getOrCreateGuildSettings (guild_id \<lparr>guild_id = ''g1''\<rparr>) ?s = (Inr settings1, ?s)"
    by (simp add: getOrCreateGuildSettings_def connectedState_def)
  have mutated: "GuildSettingsAggregate_setPrefix settings1 \<lparr>prefix_value = ''+''\<rparr> = ?mutated"
    by (simp add: GuildSettingsAggregate_setPrefix_def settings1_def)
  have saved: "gs_save (recordingRepository [] ?reconcile)
        (GuildSettingsAggregate_setPrefix settings1 \<lparr>prefix_value = ''+''\<rparr>) (world ?s)
      = (Inr (?mutated\<lparr>categories := [''Help'' \<mapsto> ''h'']\<rparr>), [Save ?mutated])"
    by (simp add: mutated recordingRepository_def connectedState_def)
  note facts = setPrefix_persists_and_caches
      [where p = "''+''" and s = ?s and g = "\<lparr>guild_id = ''g1''\<rparr>" and a = settings1
         and ?s1.0 = ?s and repository = "recordingRepository [] ?reconcile"
         and updated = "?mutated\<lparr>categories := [''Help'' \<mapsto> ''h'']\<rparr>"
         and w' = "[Save ?mutated]"]
  from facts have c1: "setPrefix None ''+'' ?s = (Inr (), ?s)"
    by blast
  from facts hit saved guildSettingsRepository_connectedState [of "[]" ?reconcile]
  have c2: "setPrefix (Some \<lparr>guild_id = ''g1''\<rparr>) ''+'' ?s
      = (Inr (), setGuildSettings (guild_id \<lparr>guild_id = ''g1''\<rparr>)
                   (?mutated\<lparr>categories := [''Help'' \<mapsto> ''h'']\<rparr>) (?s\<lparr>world := [Save ?mutated]\<rparr>))"
    by blast
  from c1 c2 show ?thesis by simp
qed

lemma warm_fold_snoc:
  "foldl (\<lambda>agg x. agg(key x \<mapsto> x)) m (gs @ [g])
   = (foldl (\<lambda>agg x. agg(key x \<mapsto> x)) m gs)(key g \<mapsto> g)"
  by simp

lemma warm_lookup_member:
  "a \<in> set gs \<Longrightarrow>
   \<exists>b \<in> set gs. key b = key a \<and> foldl (\<lambda>agg x. agg(key x \<mapsto> x)) m gs (key a) = Some b"
proof (induction gs rule: rev_induct)
  case Nil
  then show ?case by simp
next
  case (snoc g gs)
  show ?case
  proof (cases "key g = key a")
    case True
    then show ?thesis by (auto simp: warm_fold_snoc)
  next
    case False
    with snoc.prems have "a \<in> set gs" by auto
    from snoc.IH [OF this] False show ?thesis by (auto simp: warm_fold_snoc)
  qed
qed

lemma warm_lookup_distinct:
  "distinct (map key gs) \<Longrightarrow> a \<in> set gs \<Longrightarrow>
   foldl (\<lambda>agg x. agg(key x \<mapsto> x)) m gs (key a) = Some a"
proof (induction gs rule: rev_induct)
  case Nil
  then show ?case by simp
next
  case (snoc g gs)
  show ?case
  proof (cases "a = g")
    case True
    then show ?thesis by (simp add: warm_fold_snoc)
  next
    case False
    with snoc.prems have mem: "a \<in> set gs" by auto
    from snoc.prems have d: "distinct (map key gs)" and fresh: "key g \<notin> key ` set gs"
      by auto
    from mem fresh have "key a \<noteq> key g" by (metis imageI)
    with snoc.IH [OF d mem] show ?thesis by (simp add: warm_fold_snoc)
  qed
qed

lemma warm_lookup_only:
  "foldl (\<lambda>agg x. agg(key x \<mapsto> x)) Map.empty gs k = Some b \<Longrightarrow> b \<in> set gs \<and> key b = k"
proof (induction gs rule: rev_induct)
  case Nil
  then show ?case by simp
next
  case (snoc g gs)
  then show ?case by (auto simp: warm_fold_snoc split: if_splits)
qed

lemma warm_lookup_last:
  "foldl (\<lambda>agg x. agg(key x \<mapsto> x)) m gs k
   = (case find (\<lambda>x. key x = k) (rev gs) of None \<Rightarrow> m k | Some x \<Rightarrow> Some x)"
proof (induction gs rule: rev_induct)
  case Nil
  then show ?case by simp
next
  case (snoc g gs)
  show ?case
  proof (cases "key g = k")
    case True
    then show ?thesis by (simp add: warm_fold_snoc)
  next
    case False
    with snoc.IH show ?thesis by (simp add: warm_fold_snoc)
  qed
qed

lemma warm_lookup_last_empty:
  "foldl (\<lambda>agg x. agg(key x \<mapsto> x)) Map.empty gs k = find (\<lambda>x. key x = k) (rev gs)"
  by (simp add: warm_lookup_last split: option.split)

lemma warmGuildSettings_connected:
  assumes "dbConnectionStatus s = Inr CONNECTED"
    and "guildSettingsRepository s = Inr repository"
    and "gs_findAll repository (world s) = (Inr gs, w')"
  shows "warmGuildSettings s =
     (Inr (), (emit DATABASE_CONNECTED CONNECTED s)
        \<lparr>world := w',
         inst := (inst (emit DATABASE_CONNECTED CONNECTED s))
           \<lparr>priv_guildSettings :=
              foldl (\<lambda>agg settings. agg(settings_guildId settings \<mapsto> settings)) Map.empty gs\<rparr>\<rparr>)"
  using assms by (simp add: warmGuildSettings_def Let_def state_simps)

lemma warmGuildSettings_not_connected:
  assumes "dbConnectionStatus s = Inr status" and "status \<noteq> CONNECTED"
  shows "warmGuildSettings s =
     (Inl (Error ''WOKCommands > Database not connected!''), emit DATABASE_CONNECTED status s)"
  using assms by (simp add: warmGuildSettings_def Let_def state_simps)

lemma warmGuildSettings_gate:
  assumes "dbConnectionStatus s = Inr CONNECTED"
    and "guildSettingsRepository s = Inl e"
  shows "warmGuildSettings s = (Inl e, emit DATABASE_CONNECTED CONNECTED s)"
  using assms by (simp add: warmGuildSettings_def Let_def state_simps)

text \<open>
  The two probes of the built-in strategy read the same \<^verbatim>\<open>readyState\<close>: in one state of
  the world the status is \<open>CONNECTED\<close> exactly when the connectivity probe reports true.
  Only a caller-supplied strategy can make them disagree.
\<close>

lemma mongoose_probes_agree:
  "mongoose_getDbConnectionStatus connection w = Inr CONNECTED
   \<longleftrightarrow> mongoose_isDbConnected connection w"
  by (cases connection)
    (simp_all add: mongoose_getDbConnectionStatus_def mongoose_isDbConnected_def
      results_def enumFromName_def)

lemma selectStrategy_genericOptions:
  "selectStrategy env (Some (genericOptions connected status stored)) freshState
   = (Inr True,
      \<lparr>inst = \<lparr>priv_guildSettings = Map.empty,
               priv_isDbConnected = Some (\<lambda>w. connected),
               priv_getDbConnectionStatus = Some (\<lambda>w. Inr status),
               priv_guildSettingsRepository = Some (recordingRepository stored (\<lambda>a. a)),
               priv_cooldownRepository = Some (MongoCooldownRepository idleModel),
               emitted = [], console = []\<rparr>,
       world = []\<rparr>)"
  by (simp add: selectStrategy_def genericOptions_def freshState_def new_WOKCommands_def)

text \<open>
  C7, as stated, fails for a caller-supplied strategy whose two probes disagree: the
  status probe reports \<open>CONNECTED\<close>, so the status check passes, but \<^verbatim>\<open>findAll\<close> is reached
  through the guarded accessor, which asks the other probe and throws. Initialization
  fails, \<^verbatim>\<open>findAll\<close> is not called (the recording repository sees no call) and the cache
  stays empty.
\<close>

theorem setUp_probe_mismatch_counterexample:
  "dbConnectionStatus
      (snd (selectStrategy exampleEnv (Some (genericOptions False CONNECTED [settings1]))
              freshState)) = Inr CONNECTED
   \<and> fst (setUp exampleEnv (\<lambda>s. (Inr (), s)) (Some ())
            (Some (genericOptions False CONNECTED [settings1])) freshState)
       = Inl (Error ''DB not connected!'')
   \<and> world (snd (setUp exampleEnv (\<lambda>s. (Inr (), s)) (Some ())
                   (Some (genericOptions False CONNECTED [settings1])) freshState)) = []
   \<and> priv_guildSettings
       (inst (snd (setUp exampleEnv (\<lambda>s. (Inr (), s)) (Some ())
                     (Some (genericOptions False CONNECTED [settings1])) freshState)))
       = Map.empty"
  by (simp add: setUp_def selectStrategy_genericOptions warmGuildSettings_def
      dbConnectionStatus_def guildSettingsRepository_def isDBConnected_def emit_def Let_def)

text \<open>
  C7, amended. At initialization with a client and a persistence backend configured
  (the strategy selection resolves with \<^verbatim>\<open>useDb\<close> set, leaving the state \<open>s1\<close>): if the
  connection status is \<open>CONNECTED\<close> and the guarded accessor yields the repository (the
  connectivity probe reports true as well), \<^verbatim>\<open>findAll()\<close> is called once, on the world as
  the selection left it, and the rest of the set-up, the handlers that process commands
  included, runs on a state whose world is the one that call left and whose cache holds,
  under the \<^verbatim>\<open>guildId\<close> of every aggregate returned, an aggregate returned for that guild
  (that very aggregate when no two share a \<^verbatim>\<open>guildId\<close>) and nothing else. Exactly: under
  every key the cache holds the last aggregate of the returned sequence with that
  \<^verbatim>\<open>guildId\<close>, a later aggregate replacing an earlier one, and nothing where there is
  none. If the status is
  not \<open>CONNECTED\<close>, initialization throws "WOKCommands > Database not connected!"; if the
  status is \<open>CONNECTED\<close> but the accessor throws, initialization throws that error; either
  way the rest of the set-up does not run and the world stays as the selection left it:
  \<^verbatim>\<open>findAll\<close> is not called.
\<close>

theorem setUp_warms_cache_or_fails:
  assumes "selectStrategy env options s = (Inr True, s1)"
  shows
   "(dbConnectionStatus s1 = Inr CONNECTED \<and> guildSettingsRepository s1 = Inr repository
      \<and> gs_findAll repository (world s1) = (Inr gs, w') \<longrightarrow>
     (\<exists>s2. setUp env rest (Some c) options s = rest s2
          \<and> world s2 = w'
          \<and> (\<forall>a \<in> set gs. \<exists>b \<in> set gs. settings_guildId b = settings_guildId a
                  \<and> priv_guildSettings (inst s2) (settings_guildId a) = Some b)
          \<and> (distinct (map settings_guildId gs) \<longrightarrow>
               (\<forall>a \<in> set gs. priv_guildSettings (inst s2) (settings_guildId a) = Some a))
          \<and> (\<forall>k b. priv_guildSettings (inst s2) k = Some b \<longrightarrow>
                 b \<in> set gs \<and> settings_guildId b = k)
          \<and> (\<forall>k. priv_guildSettings (inst s2) k
                   = find (\<lambda>a. settings_guildId a = k) (rev gs))))
    \<and> (dbConnectionStatus s1 = Inr status \<and> status \<noteq> CONNECTED \<longrightarrow>
       setUp env rest (Some c) options s
         = (Inl (Error ''WOKCommands > Database not connected!''),
            emit DATABASE_CONNECTED status s1)
       \<and> world (snd (setUp env rest (Some c) options s)) = world s1)
    \<and> (dbConnectionStatus s1 = Inr CONNECTED \<and> guildSettingsRepository s1 = Inl e \<longrightarrow>
       setUp env rest (Some c) options s = (Inl e, emit DATABASE_CONNECTED CONNECTED s1)
       \<and> world (snd (setUp env rest (Some c) options s)) = world s1)"
proof (intro conjI impI)
  assume h: "dbConnectionStatus s1 = Inr CONNECTED \<and> guildSettingsRepository s1 = Inr repository
      \<and> gs_findAll repository (world s1) = (Inr gs, w')"
  let ?cache = "foldl (\<lambda>agg settings. agg(settings_guildId settings \<mapsto> settings)) Map.empty gs"
  let ?s2 = "(emit DATABASE_CONNECTED CONNECTED s1)
        \<lparr>world := w',
         inst := (inst (emit DATABASE_CONNECTED CONNECTED s1))\<lparr>priv_guildSettings := ?cache\<rparr>\<rparr>"
  from h have w: "warmGuildSettings s1 = (Inr (), ?s2)"
    by (simp add: warmGuildSettings_connected)
  have run: "setUp env rest (Some c) options s = rest ?s2"
    using assms w by (simp add: setUp_def)
  have every: "\<forall>a \<in> set gs. \<exists>b \<in> set gs. settings_guildId b = settings_guildId a
                  \<and> priv_guildSettings (inst ?s2) (settings_guildId a) = Some b"
    using warm_lookup_member [where key = settings_guildId and gs = gs and m = Map.empty]
    by simp
  have dist: "distinct (map settings_guildId gs) \<longrightarrow>
               (\<forall>a \<in> set gs. priv_guildSettings (inst ?s2) (settings_guildId a) = Some a)"
    using warm_lookup_distinct [where key = settings_guildId and gs = gs and m = Map.empty]
    by simp
  have only: "\<forall>k b. priv_guildSettings (inst ?s2) k = Some b \<longrightarrow>
                 b \<in> set gs \<and> settings_guildId b = k"
    using warm_lookup_only [where key = settings_guildId and gs = gs]
    by simp
  have last: "\<forall>k. priv_guildSettings (inst ?s2) k
                   = find (\<lambda>a. settings_guildId a = k) (rev gs)"
    by (simp add: warm_lookup_last_empty)
  have "world ?s2 = w'" by (simp add: state_simps)
  with run every dist only last
  show "\<exists>s2. setUp env rest (Some c) options s = rest s2
          \<and> world s2 = w'
          \<and> (\<forall>a \<in> set gs. \<exists>b \<in> set gs. settings_guildId b = settings_guildId a
                  \<and> priv_guildSettings (inst s2) (settings_guildId a) = Some b)
          \<and> (distinct (map settings_guildId gs) \<longrightarrow>
               (\<forall>a \<in> set gs. priv_guildSettings (inst s2) (settings_guildId a) = Some a))
          \<and> (\<forall>k b. priv_guildSettings (inst s2) k = Some b \<longrightarrow>
                 b \<in> set gs \<and> settings_guildId b = k)
          \<and> (\<forall>k. priv_guildSettings (inst s2) k
                   = find (\<lambda>a. settings_guildId a = k) (rev gs))"
    by blast
next
  assume h: "dbConnectionStatus s1 = Inr status \<and> status \<noteq> CONNECTED"
  then have "warmGuildSettings s1 =
     (Inl (Error ''WOKCommands > Database not connected!''), emit DATABASE_CONNECTED status s1)"
    by (simp add: warmGuildSettings_not_connected)
  with assms show r: "setUp env rest (Some c) options s
         = (Inl (Error ''WOKCommands > Database not connected!''),
            emit DATABASE_CONNECTED status s1)"
    by (simp add: setUp_def)
  then show "world (snd (setUp env rest (Some c) options s)) = world s1"
    by (simp add: state_simps)
next
  assume h: "dbConnectionStatus s1 = Inr CONNECTED \<and> guildSettingsRepository s1 = Inl e"
  then have "warmGuildSettings s1 = (Inl e, emit DATABASE_CONNECTED CONNECTED s1)"
    by (simp add: warmGuildSettings_gate)
  with assms show r: "setUp env rest (Some c) options s
         = (Inl e, emit DATABASE_CONNECTED CONNECTED s1)"
    by (simp add: setUp_def)
  then show "world (snd (setUp env rest (Some c) options s)) = world s1"
    by (simp add: state_simps)
qed

theorem setUp_warms_cache_or_fails_witness:
  "fst (setUp exampleEnv (\<lambda>s. (Inr (), s)) (Some ())
          (Some (genericOptions True CONNECTED [settings1, settings3])) freshState) = Inr ()
   \<and> world (snd (setUp exampleEnv (\<lambda>s. (Inr (), s)) (Some ())
          (Some (genericOptions True CONNECTED [settings1, settings3])) freshState)) = [FindAll]
   \<and> priv_guildSettings (inst (snd (setUp exampleEnv (\<lambda>s. (Inr (), s)) (Some ())
          (Some (genericOptions True CONNECTED [settings1, settings3])) freshState))) ''g1''
       = Some settings1
   \<and> priv_guildSettings (inst (snd (setUp exampleEnv (\<lambda>s. (Inr (), s)) (Some ())
          (Some (genericOptions True CONNECTED [settings1, settings3])) freshState))) ''g3''
       = Some settings3
   \<and> world (snd (setUp exampleEnv (\<lambda>s. (Inr (), s)) (Some ())
          (Some (genericOptions True CONNECTED [settings1, settings3, settings1_later]))
          freshState)) = [FindAll]
   \<and> priv_guildSettings (inst (snd (setUp exampleEnv (\<lambda>s. (Inr (), s)) (Some ())
          (Some (genericOptions True CONNECTED [settings1, settings3, settings1_later]))
          freshState))) ''g1''
       = Some settings1_later
   \<and> priv_guildSettings (inst (snd (setUp exampleEnv (\<lambda>s. (Inr (), s)) (Some ())
          (Some (genericOptions True CONNECTED [settings1, settings3, settings1_later]))
          freshState))) ''g2''
       = None
   \<and> fst (setUp exampleEnv (\<lambda>s. (Inr (), s)) (Some ())
          (Some (genericOptions False DISCONNECTED [settings1])) freshState)
       = Inl (Error ''WOKCommands > Database not connected!'')
   \<and> world (snd (setUp exampleEnv (\<lambda>s. (Inr (), s)) (Some ())
          (Some (genericOptions False DISCONNECTED [settings1])) freshState)) = []"
proof -
  let ?rest = "\<lambda>s :: repository_call list state. (Inr () :: error + unit, s)"
  let ?up = "genericOptions True CONNECTED [settings1, settings3]"
  let ?down = "genericOptions False DISCONNECTED [settings1]"
  let ?s1 = "snd (selectStrategy exampleEnv (Some ?up) freshState)"
  let ?t1 = "snd (selectStrategy exampleEnv (Some ?down) freshState)"
  have sel_up: "selectStrategy exampleEnv (Some ?up) freshState = (Inr True, ?s1)"
    by (simp add: selectStrategy_genericOptions)
  have sel_down: "selectStrategy exampleEnv (Some ?down) freshState = (Inr True, ?t1)"
    by (simp add: selectStrategy_genericOptions)
  have status_up: "dbConnectionStatus ?s1 = Inr CONNECTED"
    by (simp add: selectStrategy_genericOptions dbConnectionStatus_def)
  have repo_up: "guildSettingsRepository ?s1
      = Inr (recordingRepository [settings1, settings3] (\<lambda>a. a))"
    by (simp add: selectStrategy_genericOptions guildSettingsRepository_def isDBConnected_def)
  have all_up: "gs_findAll (recordingRepository [settings1, settings3] (\<lambda>a. a)) (world ?s1)
      = (Inr [settings1, settings3], [FindAll])"
    by (simp add: selectStrategy_genericOptions recordingRepository_def)
  have keys: "distinct (map settings_guildId [settings1, settings3])"
    by (simp add: settings1_def settings3_def)
  have status_down: "dbConnectionStatus ?t1 = Inr DISCONNECTED \<and> DISCONNECTED \<noteq> CONNECTED"
    by (simp add: selectStrategy_genericOptions dbConnectionStatus_def)
  have world_down: "world ?t1 = []"
    by (simp add: selectStrategy_genericOptions)
  from setUp_warms_cache_or_fails
         [OF sel_up, where repository = "recordingRepository [settings1, settings3] (\<lambda>a. a)"
            and gs = "[settings1, settings3]" and w' = "[FindAll]" and rest = ?rest
            and c = "()"]
       status_up repo_up all_up keys
  obtain s2 where
    run: "setUp exampleEnv ?rest (Some ()) (Some ?up) freshState = ?rest s2"
    and w: "world s2 = [FindAll]"
    and cache: "\<forall>a \<in> set [settings1, settings3].
                  priv_guildSettings (inst s2) (settings_guildId a) = Some a"
    by blast
  from cache have
    "priv_guildSettings (inst s2) ''g1'' = Some settings1"
    "priv_guildSettings (inst s2) ''g3'' = Some settings3"
    by (simp_all add: settings1_def settings3_def)
  with run w have up:
    "fst (setUp exampleEnv ?rest (Some ()) (Some ?up) freshState) = Inr ()
     \<and> world (snd (setUp exampleEnv ?rest (Some ()) (Some ?up) freshState)) = [FindAll]
     \<and> priv_guildSettings (inst (snd (setUp exampleEnv ?rest (Some ()) (Some ?up) freshState)))
          ''g1'' = Some settings1
     \<and> priv_guildSettings (inst (snd (setUp exampleEnv ?rest (Some ()) (Some ?up) freshState)))
          ''g3'' = Some settings3"
    by simp
  let ?dup = "genericOptions True CONNECTED [settings1, settings3, settings1_later]"
  let ?d1 = "snd (selectStrategy exampleEnv (Some ?dup) freshState)"
  have sel_dup: "selectStrategy exampleEnv (Some ?dup) freshState = (Inr True, ?d1)"
    by (simp add: selectStrategy_genericOptions)
  have status_dup: "dbConnectionStatus ?d1 = Inr CONNECTED"
    by (simp add: selectStrategy_genericOptions dbConnectionStatus_def)
  have repo_dup: "guildSettingsRepository ?d1
      = Inr (recordingRepository [settings1, settings3, settings1_later] (\<lambda>a. a))"
    by (simp add: selectStrategy_genericOptions guildSettingsRepository_def isDBConnected_def)
  have all_dup:
    "gs_findAll (recordingRepository [settings1, settings3, settings1_later] (\<lambda>a. a)) (world ?d1)
      = (Inr [settings1, settings3, settings1_later], [FindAll])"
    by (simp add: selectStrategy_genericOptions recordingRepository_def)
  from setUp_warms_cache_or_fails
         [OF sel_dup,
          where repository = "recordingRepository [settings1, settings3, settings1_later] (\<lambda>a. a)"
            and gs = "[settings1, settings3, settings1_later]" and w' = "[FindAll]"
            and rest = ?rest and c = "()"]
       status_dup repo_dup all_dup
  obtain d2 where
    run_dup: "setUp exampleEnv ?rest (Some ()) (Some ?dup) freshState = ?rest d2"
    and w_dup: "world d2 = [FindAll]"
    and last: "\<forall>k. priv_guildSettings (inst d2) k
                 = find (\<lambda>a. settings_guildId a = k) (rev [settings1, settings3, settings1_later])"
    by blast
  from last have
    "priv_guildSettings (inst d2) ''g1'' = Some settings1_later"
    "priv_guildSettings (inst d2) ''g2'' = None"
    by (simp_all add: settings1_def settings3_def settings1_later_def)
  with run_dup w_dup have dup:
    "world (snd (setUp exampleEnv ?rest (Some ()) (Some ?dup) freshState)) = [FindAll]
     \<and> priv_guildSettings (inst (snd (setUp exampleEnv ?rest (Some ()) (Some ?dup) freshState)))
          ''g1'' = Some settings1_later
     \<and> priv_guildSettings (inst (snd (setUp exampleEnv ?rest (Some ()) (Some ?dup) freshState)))
          ''g2'' = None"
    by simp
  from setUp_warms_cache_or_fails
         [OF sel_down, where status = DISCONNECTED and rest = ?rest and c = "()"]
       status_down world_down
  have down:
    "fst (setUp exampleEnv ?rest (Some ()) (Some ?down) freshState)
       = Inl (Error ''WOKCommands > Database not connected!'')
     \<and> world (snd (setUp exampleEnv ?rest (Some ()) (Some ?down) freshState)) = []"
    by (simp add: world_emit)
  from up dup down show ?thesis by blast
qed

end
